theory Spec2Isabelle
  imports Complex_Main
begin

section \<open>The reservation page: data model\<close>

text \<open>
  The booking page is one React component. Its interfaces become records, its string
  unions become datatypes and the component state becomes one record that every event
  handler takes and returns. A JavaScript \<open>number\<close> holding a count is an \<open>int\<close>, one
  holding money is a \<open>real\<close>; an optional field (\<open>availableCount?\<close>) is an \<open>option\<close>, and
  \<open>None\<close> also stands for \<open>NaN\<close> where a parse can produce it. Arithmetic is exact: the
  rounding of IEEE doubles is not part of the model.
\<close>

datatype board_type = RoomOnly | BedAndBreakfast | HalfBoard | FullBoard

datatype room_status = Available | Occupied | Maintenance

datatype payment_method = Cash | Credit | Visa

datatype booking_status = Pending | Confirmed | CheckedIn | Cancelled

record Room =
  room_id :: string
  room_hotelId :: string
  room_type :: string
  room_boardType :: board_type
  room_description :: string
  room_rate :: real
  room_available :: bool
  room_status :: room_status
  room_availableCount :: "int option"

record Guest =
  guest_fullName :: string
  guest_email :: string
  guest_guestClassification :: string
  guest_travelAgent :: string
  guest_company :: string
  guest_source :: string
  guest_group :: string
  guest_arrival :: string
  guest_departure :: string
  guest_vip :: bool
  guest_nationality :: string
  guest_telephone :: string
  guest_roomNo :: string
  guest_rateCode :: string
  guest_roomRate :: real
  guest_payment :: string
  guest_resId :: string
  guest_profileId :: string

record Payment =
  pay_method :: payment_method
  pay_amount :: real
  pay_date :: string
  pay_startDate :: "string option"
  pay_completionDate :: "string option"
  amountPaidToday :: "real option"
  remainingBalance :: "real option"

record Booking =
  bk_id :: string
  bk_resId :: string
  bk_guest :: Guest
  bk_room :: Room
  bk_numberOfRooms :: int
  bk_payment :: Payment
  bk_status :: booking_status
  bk_createdAt :: string

text \<open>
  The component state read or written by the handlers below. The remaining state
  variables of the page (language, hotels, list filters, loading flag) are touched by
  none of them. The lists \<open>rooms\<close> and \<open>bookings\<close> are filled once, when the component
  mounts, from static files; the handlers run on the state after that.
\<close>

record page_state =
  selectedHotelId :: string
  selectedRoomId :: string
  numberOfRooms :: int
  arrivalDate :: string
  departureDate :: string
  numberOfNights :: int
  guestData :: Guest
  paymentData :: Payment
  bookings :: "Booking list"
  rooms :: "Room list"

section \<open>Number of nights\<close>

text \<open>
  \<open>calculateNights\<close> reads both dates through \<open>new Date(s).getTime()\<close>. That function
  belongs to the platform, so it is the parameter \<open>getTime\<close>: the time value in
  milliseconds, \<open>None\<close> for an invalid date (\<open>NaN\<close>). A \<open>NaN\<close> difference stays \<open>NaN\<close>
  through \<open>Math.ceil\<close>, fails the test \<open>nights > 0\<close> and stores 0. The guard
  \<open>arrival && departure\<close> is the test that both strings are non-empty.
\<close>

definition calculateNights ::
  "(string \<Rightarrow> int option) \<Rightarrow> string \<Rightarrow> string \<Rightarrow> page_state \<Rightarrow> page_state" where
  "calculateNights getTime arrival departure st =
     (if arrival \<noteq> [] \<and> departure \<noteq> [] then
        let timeDiff = (case (getTime departure, getTime arrival) of
                          (Some d, Some a) \<Rightarrow> Some (d - a)
                        | _ \<Rightarrow> None);
            nights = map_option (\<lambda>t. \<lceil>real_of_int t / (1000 * 3600 * 24)\<rceil>) timeDiff
        in st\<lparr>numberOfNights := (case nights of
                                   Some n \<Rightarrow> if n > 0 then n else 0
                                 | None \<Rightarrow> 0)\<rparr>
      else st)"

text \<open>
  Both date inputs store the new string and call \<open>calculateNights\<close> with it and with the
  other date as the current render holds it.
\<close>

definition onArrivalDateChange ::
  "(string \<Rightarrow> int option) \<Rightarrow> string \<Rightarrow> page_state \<Rightarrow> page_state" where
  "onArrivalDateChange getTime v st =
     calculateNights getTime v (departureDate st) (st\<lparr>arrivalDate := v\<rparr>)"

definition onDepartureDateChange ::
  "(string \<Rightarrow> int option) \<Rightarrow> string \<Rightarrow> page_state \<Rightarrow> page_state" where
  "onDepartureDateChange getTime v st =
     calculateNights getTime (arrivalDate st) v (st\<lparr>departureDate := v\<rparr>)"

section \<open>Room selection and the number of rooms\<close>

text \<open>\<open>x || 0\<close> on a number that may be missing or \<open>NaN\<close>.\<close>

definition orZero :: "'a::zero option \<Rightarrow> 'a" where
  "orZero x = (case x of None \<Rightarrow> 0 | Some v \<Rightarrow> v)"

definition getSelectedRoom :: "page_state \<Rightarrow> Room option" where
  "getSelectedRoom st = find (\<lambda>room. room_id room = selectedRoomId st) (rooms st)"

definition getAvailableRooms :: "page_state \<Rightarrow> Room list" where
  "getAvailableRooms st = filter (\<lambda>room. room_hotelId room = selectedHotelId st) (rooms st)"

text \<open>The hotel selector stores the chosen hotel id; the selected room id stays.\<close>

definition setSelectedHotelId :: "string \<Rightarrow> page_state \<Rightarrow> page_state" where
  "setSelectedHotelId v st = st\<lparr>selectedHotelId := v\<rparr>"

text \<open>A click on a room card selects the room only when it is selectable.\<close>

definition isSelectable :: "Room \<Rightarrow> bool" where
  "isSelectable room \<longleftrightarrow>
     room_status room = Available \<and> orZero (room_availableCount room) > 0"

definition onRoomClick :: "Room \<Rightarrow> page_state \<Rightarrow> page_state" where
  "onRoomClick room st = (if isSelectable room then st\<lparr>selectedRoomId := room_id room\<rparr> else st)"

text \<open>
  \<open>getSelectedRoom()?.availableCount || 0\<close>, the bound the number-of-rooms selector and
  its caption read.
\<close>

definition selectedAvailableCount :: "page_state \<Rightarrow> int" where
  "selectedAvailableCount st =
     (case getSelectedRoom st of None \<Rightarrow> 0 | Some room \<Rightarrow> orZero (room_availableCount room))"

text \<open>
  The values of the \<open>option\<close> elements the selector renders. Without a selected room id
  it shows one placeholder of value 1 (and is disabled); otherwise
  \<open>Array.from({length: Math.min(10, count)}, (_, i) => i + 1)\<close>, where a length below
  zero gives the empty array.
\<close>

definition numberOfRoomsOptions :: "page_state \<Rightarrow> int list" where
  "numberOfRoomsOptions st =
     (if selectedRoomId st = [] then [1]
      else map (\<lambda>i. int i + 1) [0..<nat (min 10 (selectedAvailableCount st))])"

text \<open>
  The selector's change handler stores \<open>parseInt\<close> of the chosen option's value, which
  is the number the option was rendered from; nothing is clamped.
\<close>

definition onNumberOfRoomsChange :: "int \<Rightarrow> page_state \<Rightarrow> page_state" where
  "onNumberOfRoomsChange num st = st\<lparr>numberOfRooms := num\<rparr>"

text \<open>
  The page has no clamping function. \<open>clampRoomCount_spec\<close> follows the words of the
  specification, "min(requested, availableCount), floored at 1", to be compared with
  what the selector offers.
\<close>

definition clampRoomCount_spec :: "int \<Rightarrow> int \<Rightarrow> int" where
  "clampRoomCount_spec requested availableCount = max 1 (min requested availableCount)"

section \<open>Total price\<close>

text \<open>
  The total is the expression \<open>(room?.rate || 0) * numberOfNights * numberOfRooms\<close> of the
  room details and of the review panel; \<open>computeTotal\<close> is that product as a function of
  its three operands.
\<close>

definition computeTotal :: "real \<Rightarrow> int \<Rightarrow> int \<Rightarrow> real" where
  "computeTotal rate nights roomCount = rate * of_int nights * of_int roomCount"

definition totalPrice :: "page_state \<Rightarrow> real" where
  "totalPrice st =
     computeTotal (case getSelectedRoom st of None \<Rightarrow> 0 | Some room \<Rightarrow> room_rate room)
       (numberOfNights st) (numberOfRooms st)"

section \<open>Guest data\<close>

text \<open>
  Every guest input calls \<open>setGuestData\<close> with the guest data changed in one field. The
  alternative price input does so with \<open>parseFloat(e.target.value) || 0\<close> for the room
  rate; its argument here is the result of \<open>parseFloat\<close>, \<open>None\<close> for \<open>NaN\<close>.
\<close>

definition setGuestData :: "Guest \<Rightarrow> page_state \<Rightarrow> page_state" where
  "setGuestData g st = st\<lparr>guestData := g\<rparr>"

definition onAlternativePriceChange :: "real option \<Rightarrow> page_state \<Rightarrow> page_state" where
  "onAlternativePriceChange parsed st =
     setGuestData ((guestData st)\<lparr>guest_roomRate := orZero parsed\<rparr>) st"

section \<open>Payment\<close>

text \<open>
  The method cards and the payment date inputs call \<open>setPaymentData\<close> with the payment
  changed in one field. The two amount inputs follow; their argument is
  \<open>parseFloat(e.target.value)\<close>, \<open>None\<close> for \<open>NaN\<close>.
\<close>

definition setPaymentData :: "Payment \<Rightarrow> page_state \<Rightarrow> page_state" where
  "setPaymentData p st = st\<lparr>paymentData := p\<rparr>"

definition onAmountChange :: "real option \<Rightarrow> page_state \<Rightarrow> page_state" where
  "onAmountChange parsed st =
     setPaymentData ((paymentData st)\<lparr>pay_amount := orZero parsed\<rparr>) st"

definition onAmountPaidTodayChange :: "real option \<Rightarrow> page_state \<Rightarrow> page_state" where
  "onAmountPaidTodayChange parsed st =
     (let paidToday = orZero parsed;
          remaining = pay_amount (paymentData st) - paidToday
      in setPaymentData ((paymentData st)
              \<lparr>amountPaidToday := Some paidToday,
               remainingBalance := Some (if remaining > 0 then remaining else 0)\<rparr>) st)"

section \<open>Confirmation\<close>

text \<open>
  \<open>handleConfirmBooking\<close> reads the clock up to three times: \<open>Date.now()\<close> for the id,
  \<open>Date.now()\<close> again for a missing reservation id, and \<open>new Date().toISOString()\<close> for
  the creation time. The three readings are its environment.
\<close>

record clock =
  now_id :: int
  now_resId :: int
  now_createdAt :: string

text \<open>
  The decimal rendering of an integer, as \<open>toString\<close> and a template literal give it
  for the magnitudes of a clock reading.
\<close>

fun digits :: "nat \<Rightarrow> string" where
  "digits n = (if n < 10 then [''0123456789'' ! n]
               else digits (n div 10) @ [''0123456789'' ! (n mod 10)])"

declare digits.simps [simp del]

definition toString :: "int \<Rightarrow> string" where
  "toString n = (if n < 0 then CHR ''-'' # digits (nat (- n)) else digits (nat n))"

definition newBooking :: "clock \<Rightarrow> page_state \<Rightarrow> Room \<Rightarrow> Booking" where
  "newBooking clk st selectedRoom =
     \<lparr>bk_id = toString (now_id clk),
      bk_resId = (if guest_resId (guestData st) \<noteq> [] then guest_resId (guestData st)
                  else ''RES'' @ toString (now_resId clk)),
      bk_guest = (guestData st)
        \<lparr>guest_arrival := arrivalDate st,
         guest_departure := departureDate st,
         guest_roomRate := room_rate selectedRoom\<rparr>,
      bk_room = selectedRoom,
      bk_numberOfRooms = numberOfRooms st,
      bk_payment = paymentData st,
      bk_status = Confirmed,
      bk_createdAt = now_createdAt clk\<rparr>"

definition handleConfirmBooking :: "clock \<Rightarrow> page_state \<Rightarrow> page_state" where
  "handleConfirmBooking clk st =
     (case getSelectedRoom st of
        Some selectedRoom \<Rightarrow> st\<lparr>bookings := bookings st @ [newBooking clk st selectedRoom]\<rparr>
      | None \<Rightarrow> st)"

section \<open>Concrete data\<close>

text \<open>
  The date inputs are \<open>input type="date"\<close> elements: their value is empty or a calendar
  date of the form \<open>yyyy-mm-dd\<close>, which \<open>Date\<close> reads as midnight UTC of that day.
  \<open>isoDateGetTime\<close> is an instance of \<open>getTime\<close> for such values, with the day number of
  the language standard (\<open>DayFromYear\<close>, then the days of the months before). It takes
  every string of another form for invalid, so it stands for the platform only on what
  the inputs can hold, and it serves only to run the handlers on concrete dates.
\<close>

definition digitVal :: "char \<Rightarrow> nat option" where
  "digitVal c =
     (let n = (of_char c :: nat) in if 48 \<le> n \<and> n \<le> 57 then Some (n - 48) else None)"

fun decimal :: "nat \<Rightarrow> string \<Rightarrow> nat option" where
  "decimal acc [] = Some acc"
| "decimal acc (c # cs) =
     (case digitVal c of None \<Rightarrow> None | Some d \<Rightarrow> decimal (10 * acc + d) cs)"

definition isLeapYear :: "int \<Rightarrow> bool" where
  "isLeapYear y =
     (if y mod 4 \<noteq> 0 then False
      else if y mod 100 \<noteq> 0 then True
      else if y mod 400 \<noteq> 0 then False
      else True)"

definition daysInMonth :: "int \<Rightarrow> nat \<Rightarrow> int" where
  "daysInMonth y m =
     (if m = 2 then (if isLeapYear y then 29 else 28)
      else if m = 4 \<or> m = 6 \<or> m = 9 \<or> m = 11 then 30 else 31)"

definition dayFromYear :: "int \<Rightarrow> int" where
  "dayFromYear y =
     365 * (y - 1970) + (y - 1969) div 4 - (y - 1901) div 100 + (y - 1601) div 400"

definition makeDay :: "int \<Rightarrow> nat \<Rightarrow> int \<Rightarrow> int" where
  "makeDay y m d = dayFromYear y + (\<Sum>k\<leftarrow>[1..<m]. daysInMonth y k) + d - 1"

definition isoDateGetTime :: "string \<Rightarrow> int option" where
  "isoDateGetTime s =
     (if length s = 10 \<and> s ! 4 = CHR ''-'' \<and> s ! 7 = CHR ''-'' then
        (case (decimal 0 (take 4 s), decimal 0 (take 2 (drop 5 s)), decimal 0 (drop 8 s)) of
           (Some y, Some m, Some d) \<Rightarrow>
             if 1 \<le> m \<and> m \<le> 12 \<and> 1 \<le> d \<and> int d \<le> daysInMonth (int y) m
             then Some (makeDay (int y) m (int d) * (1000 * 3600 * 24))
             else None
         | _ \<Rightarrow> None)
      else None)"

text \<open>The state the component starts from (the arguments of its \<open>useState\<close> calls).\<close>

definition initialGuest :: Guest where
  "initialGuest =
     \<lparr>guest_fullName = ''Ahmed Mohammed Al-Rashid'',
      guest_email = ''ahmed.alrashid@email.com'',
      guest_guestClassification = ''Saudi Citizen'',
      guest_travelAgent = ''Emirates Travel Agency'',
      guest_company = ''Al-Rashid Trading Co.'',
      guest_source = ''Online Booking'',
      guest_group = ''Business Group'',
      guest_arrival = ''2024-01-15'',
      guest_departure = ''2024-01-20'',
      guest_vip = True,
      guest_nationality = ''UAE'',
      guest_telephone = ''+971-50-123-4567'',
      guest_roomNo = ''205'',
      guest_rateCode = ''CORP'',
      guest_roomRate = 250,
      guest_payment = ''credit'',
      guest_resId = ''RES-2024-001'',
      guest_profileId = ''PROF-12345''\<rparr>"

definition initialPayment :: Payment where
  "initialPayment =
     \<lparr>pay_method = Credit,
      pay_amount = 1250,
      pay_date = ''2024-01-15'',
      pay_startDate = Some ''2024-01-15'',
      pay_completionDate = Some ''2024-01-25'',
      amountPaidToday = Some 500,
      remainingBalance = Some 750\<rparr>"

definition initialState :: page_state where
  "initialState =
     \<lparr>selectedHotelId = ''hotel-1'',
      selectedRoomId = ''room-1'',
      numberOfRooms = 1,
      arrivalDate = ''2024-01-15'',
      departureDate = ''2024-01-20'',
      numberOfNights = 5,
      guestData = initialGuest,
      paymentData = initialPayment,
      bookings = [],
      rooms = []\<rparr>"

text \<open>
  The rooms come from \<open>/rooms.json\<close> at mount. \<open>sampleRoom rate count\<close> is a room of the
  first hotel as that file may hold it, and \<open>loadedState\<close> the start state once such a
  room is loaded.
\<close>

definition sampleRoom :: "real \<Rightarrow> int option \<Rightarrow> Room" where
  "sampleRoom rate count =
     \<lparr>room_id = ''room-1'',
      room_hotelId = ''hotel-1'',
      room_type = ''Standard Room'',
      room_boardType = BedAndBreakfast,
      room_description = ''Standard room'',
      room_rate = rate,
      room_available = True,
      room_status = Available,
      room_availableCount = count\<rparr>"

definition loadedState :: "real \<Rightarrow> int option \<Rightarrow> page_state" where
  "loadedState rate count = initialState\<lparr>rooms := [sampleRoom rate count]\<rparr>"

text \<open>
  A second room of the same hotel, and the start state with both rooms loaded, the
  first of them selected.
\<close>

definition otherRoom :: "real \<Rightarrow> int option \<Rightarrow> Room" where
  "otherRoom rate count =
     \<lparr>room_id = ''room-2'',
      room_hotelId = ''hotel-1'',
      room_type = ''Deluxe Room'',
      room_boardType = HalfBoard,
      room_description = ''Deluxe room'',
      room_rate = rate,
      room_available = True,
      room_status = Available,
      room_availableCount = count\<rparr>"

definition twoRoomState :: "int option \<Rightarrow> int option \<Rightarrow> page_state" where
  "twoRoomState count count' =
     initialState\<lparr>rooms := [sampleRoom 250 count, otherRoom 300 count']\<rparr>"

definition sampleClock :: clock where
  "sampleClock =
     \<lparr>now_id = 1705312800000,
      now_resId = 1705312800000,
      now_createdAt = ''2024-01-15T10:00:00.000Z''\<rparr>"

section \<open>Auxiliary facts\<close>

lemma ceil_nonpos:
  "(t::int) \<le> 0 \<Longrightarrow> max 0 \<lceil>real_of_int t / (1000 * 3600 * 24)\<rceil> = 0"
proof -
  assume "t \<le> 0"
  then have "real_of_int t / (1000 * 3600 * 24) \<le> 0" by simp
  then have "\<lceil>real_of_int t / (1000 * 3600 * 24)\<rceil> \<le> 0" by (simp only: ceiling_le_zero)
  then show ?thesis by simp
qed

lemma ceil_one:
  "0 < (t::int) \<Longrightarrow> t \<le> 86400000 \<Longrightarrow> max 0 \<lceil>real_of_int t / (1000 * 3600 * 24)\<rceil> = 1"
proof -
  assume a: "0 < t" "t \<le> 86400000"
  have "\<lceil>real_of_int t / (1000 * 3600 * 24)\<rceil> = 1"
  proof (rule ceiling_unique)
    show "of_int 1 - 1 < real_of_int t / (1000 * 3600 * 24)" using a by simp
    show "real_of_int t / (1000 * 3600 * 24) \<le> of_int 1" using a by simp
  qed
  then show ?thesis by simp
qed

text \<open>What \<open>calculateNights\<close> stores, by the three ways through its body.\<close>

lemma calculateNights_cases:
  "x \<noteq> [] \<Longrightarrow> y \<noteq> [] \<Longrightarrow> g x = Some a \<Longrightarrow> g y = Some d \<Longrightarrow>
     numberOfNights (calculateNights g x y st) =
       max 0 \<lceil>real_of_int (d - a) / (1000 * 3600 * 24)\<rceil>"
  "x \<noteq> [] \<Longrightarrow> y \<noteq> [] \<Longrightarrow> g x = None \<or> g y = None \<Longrightarrow>
     numberOfNights (calculateNights g x y st) = 0"
  "x = [] \<or> y = [] \<Longrightarrow> calculateNights g x y st = st"
proof -
  have m: "\<And>n::int. (if 0 < n then n else 0) = max 0 n" by simp
  show "x \<noteq> [] \<Longrightarrow> y \<noteq> [] \<Longrightarrow> g x = Some a \<Longrightarrow> g y = Some d \<Longrightarrow>
     numberOfNights (calculateNights g x y st) =
       max 0 \<lceil>real_of_int (d - a) / (1000 * 3600 * 24)\<rceil>"
    unfolding calculateNights_def Let_def m [symmetric] by simp
  show "x \<noteq> [] \<Longrightarrow> y \<noteq> [] \<Longrightarrow> g x = None \<or> g y = None \<Longrightarrow>
     numberOfNights (calculateNights g x y st) = 0"
    unfolding calculateNights_def Let_def by (auto split: option.splits)
  show "x = [] \<or> y = [] \<Longrightarrow> calculateNights g x y st = st"
    unfolding calculateNights_def by auto
qed

lemma calculateNights_frame:
  "selectedRoomId (calculateNights g x y st) = selectedRoomId st"
  "rooms (calculateNights g x y st) = rooms st"
  "guestData (calculateNights g x y st) = guestData st"
  "arrivalDate (calculateNights g x y st) = arrivalDate st"
  "departureDate (calculateNights g x y st) = departureDate st"
  "bookings (calculateNights g x y st) = bookings st"
  "numberOfRooms (calculateNights g x y st) = numberOfRooms st"
  "paymentData (calculateNights g x y st) = paymentData st"
  by (simp_all add: calculateNights_def Let_def)

lemmas iso_defs =
  isoDateGetTime_def digitVal_def makeDay_def dayFromYear_def daysInMonth_def isLeapYear_def

lemma iso_empty: "isoDateGetTime [] = None"
  by (simp add: isoDateGetTime_def)

lemma iso_soon: "isoDateGetTime ''soon'' = None"
  by (simp add: iso_defs)

lemma iso_0115: "isoDateGetTime ''2024-01-15'' = Some 1705276800000"
  by (simp add: iso_defs)

lemma iso_0116: "isoDateGetTime ''2024-01-16'' = Some 1705363200000"
  by (simp add: iso_defs)

lemma iso_0118: "isoDateGetTime ''2024-01-18'' = Some 1705536000000"
  by (simp add: iso_defs)

lemma iso_0120: "isoDateGetTime ''2024-01-20'' = Some 1705708800000"
  by (simp add: iso_defs)

lemma iso_0125: "isoDateGetTime ''2024-01-25'' = Some 1706140800000"
  by (simp add: iso_defs)

lemma initial_dates:
  "arrivalDate initialState = ''2024-01-15''"
  "departureDate initialState = ''2024-01-20''"
  "numberOfNights initialState = 5"
  by (simp_all add: initialState_def)

lemma loaded_selected:
  "getSelectedRoom (loadedState rate count) = Some (sampleRoom rate count)"
  by (simp add: getSelectedRoom_def loadedState_def initialState_def sampleRoom_def)

lemma loaded_selectedRoomId: "selectedRoomId (loadedState rate count) \<noteq> []"
  by (simp add: loadedState_def initialState_def)

lemma sample_count: "room_availableCount (sampleRoom rate count) = count"
  by (simp add: sampleRoom_def)

lemma find_None: "(\<forall>x \<in> set xs. \<not> P x) \<Longrightarrow> find P xs = None"
  by (simp add: find_None_iff)

text \<open>The decimal rendering determines the integer.\<close>

lemma digit_char_code:
  assumes "a < 10"
  shows "(of_char (''0123456789'' ! a) :: nat) = 48 + a"
proof -
  from assms have "a = 0 \<or> a = 1 \<or> a = 2 \<or> a = 3 \<or> a = 4 \<or> a = 5 \<or> a = 6 \<or> a = 7 \<or> a = 8 \<or> a = 9"
    by arith
  then show ?thesis by (elim disjE) simp_all
qed

lemma digit_char_inj:
  assumes "a < 10" "b < 10" "''0123456789'' ! a = ''0123456789'' ! b"
  shows "a = b"
proof -
  have "(of_char (''0123456789'' ! a) :: nat) = of_char (''0123456789'' ! b)"
    using assms(3) by simp
  then show ?thesis using digit_char_code [OF assms(1)] digit_char_code [OF assms(2)] by simp
qed

lemma digits_nonempty: "digits n \<noteq> []"
  by (subst digits.simps) simp

lemma digits_no_minus: "CHR ''-'' \<notin> set (digits n)"
proof (induction n rule: digits.induct)
  case (1 n)
  have c: "\<And>a. a < 10 \<Longrightarrow> ''0123456789'' ! a \<noteq> CHR ''-''"
  proof
    fix a :: nat assume "a < 10" "''0123456789'' ! a = CHR ''-''"
    then have "(of_char (CHR ''-'') :: nat) = 48 + a" using digit_char_code by metis
    then show False by simp
  qed
  show ?case
  proof (cases "n < 10")
    case True
    then show ?thesis using c [of n] by (subst digits.simps) simp
  next
    case False
    then show ?thesis using 1 c [of "n mod 10"] by (subst digits.simps) simp
  qed
qed

lemma digits_inj: "digits n = digits m \<Longrightarrow> n = m"
proof (induction n arbitrary: m rule: digits.induct)
  case (1 n)
  show ?case
  proof (cases "n < 10")
    case nlt: True
    show ?thesis
    proof (cases "m < 10")
      case True
      with nlt 1(2) have "''0123456789'' ! n = ''0123456789'' ! m"
        by (simp add: digits.simps [of n] digits.simps [of m])
      with nlt True show ?thesis by (rule digit_char_inj)
    next
      case False
      with nlt 1(2) have "[''0123456789'' ! n] = digits (m div 10) @ [''0123456789'' ! (m mod 10)]"
        by (simp add: digits.simps [of n] digits.simps [of m])
      then have "digits (m div 10) = []" by simp
      then show ?thesis using digits_nonempty by blast
    qed
  next
    case nge: False
    show ?thesis
    proof (cases "m < 10")
      case True
      with nge 1(2) have "digits (n div 10) @ [''0123456789'' ! (n mod 10)] = [''0123456789'' ! m]"
        by (simp add: digits.simps [of n] digits.simps [of m])
      then have "digits (n div 10) = []" by simp
      then show ?thesis using digits_nonempty by blast
    next
      case False
      with nge 1(2) have e: "digits (n div 10) @ [''0123456789'' ! (n mod 10)]
          = digits (m div 10) @ [''0123456789'' ! (m mod 10)]"
        by (simp add: digits.simps [of n] digits.simps [of m])
      then have "digits (n div 10) = digits (m div 10)"
        and l: "''0123456789'' ! (n mod 10) = ''0123456789'' ! (m mod 10)" by simp_all
      with 1(1) [OF nge] have d: "n div 10 = m div 10" by blast
      have "n mod 10 = m mod 10" using l by (intro digit_char_inj) simp_all
      with d show ?thesis by (metis div_mult_mod_eq)
    qed
  qed
qed

lemma toString_inj: "toString a = toString b \<Longrightarrow> a = b"
proof -
  assume e: "toString a = toString b"
  have h: "\<And>n. hd (digits n) \<noteq> CHR ''-''"
    using digits_no_minus digits_nonempty by (metis hd_in_set)
  show ?thesis
  proof (cases "a < 0")
    case an: True
    show ?thesis
    proof (cases "b < 0")
      case True
      with an e have "digits (nat (- a)) = digits (nat (- b))" by (simp add: toString_def)
      then have "nat (- a) = nat (- b)" by (rule digits_inj)
      with an True show ?thesis by simp
    next
      case False
      with an e have "CHR ''-'' # digits (nat (- a)) = digits (nat b)" by (simp add: toString_def)
      then have "hd (digits (nat b)) = CHR ''-''" by (metis list.sel(1))
      with h show ?thesis by blast
    qed
  next
    case ap: False
    show ?thesis
    proof (cases "b < 0")
      case True
      with ap e have "digits (nat a) = CHR ''-'' # digits (nat (- b))" by (simp add: toString_def)
      then have "hd (digits (nat a)) = CHR ''-''" by (metis list.sel(1))
      with h show ?thesis by blast
    next
      case False
      with ap e have "digits (nat a) = digits (nat b)" by (simp add: toString_def)
      then have "nat a = nat b" by (rule digits_inj)
      with ap False show ?thesis by simp
    qed
  qed
qed

text \<open>The values \<open>Array.from\<close> produces for a length \<open>k\<close> are the integers from 1 to \<open>k\<close>.\<close>

lemma options_set: "set (map (\<lambda>i. int i + 1) [0..<nat k]) = {1..k}"
proof (rule set_eqI)
  fix x :: int
  show "x \<in> set (map (\<lambda>i. int i + 1) [0..<nat k]) \<longleftrightarrow> x \<in> {1..k}"
  proof
    assume "x \<in> set (map (\<lambda>i. int i + 1) [0..<nat k])"
    then obtain i where "i < nat k" "x = int i + 1" by auto
    then show "x \<in> {1..k}" by auto
  next
    assume "x \<in> {1..k}"
    then have "nat (x - 1) < nat k" "x = int (nat (x - 1)) + 1" by auto
    then have "nat (x - 1) \<in> set [0..<nat k]" "x = (\<lambda>i. int i + 1) (nat (x - 1))" by auto
    then show "x \<in> set (map (\<lambda>i. int i + 1) [0..<nat k])"
      unfolding set_map by (rule_tac image_eqI)
  qed
qed

lemma options_selected:
  assumes "selectedRoomId st \<noteq> []" "getSelectedRoom st = Some room"
    "room_availableCount room = Some a"
  shows "set (numberOfRoomsOptions st) = {1..min 10 a}"
  using assms
  by (simp add: numberOfRoomsOptions_def selectedAvailableCount_def orZero_def options_set
      del: set_map)

lemma two_selected:
  "selectedRoomId (twoRoomState c c') \<noteq> []"
  "getSelectedRoom (twoRoomState c c') = Some (sampleRoom 250 c)"
  by (simp_all add: getSelectedRoom_def twoRoomState_def initialState_def sampleRoom_def)

text \<open>The state after 10 rooms are picked for the first room and the second room is clicked.\<close>

lemma switched_room:
  "numberOfRooms (onRoomClick (otherRoom 300 (Some 3))
      (onNumberOfRoomsChange 10 (twoRoomState (Some 15) (Some 3)))) = 10"
  "selectedAvailableCount (onRoomClick (otherRoom 300 (Some 3))
      (onNumberOfRoomsChange 10 (twoRoomState (Some 15) (Some 3)))) = 3"
proof -
  have s: "isSelectable (otherRoom 300 (Some 3))"
    by (simp add: isSelectable_def otherRoom_def orZero_def)
  show "numberOfRooms (onRoomClick (otherRoom 300 (Some 3))
      (onNumberOfRoomsChange 10 (twoRoomState (Some 15) (Some 3)))) = 10"
    by (simp add: onRoomClick_def s onNumberOfRoomsChange_def)
  have "getSelectedRoom (onRoomClick (otherRoom 300 (Some 3))
      (onNumberOfRoomsChange 10 (twoRoomState (Some 15) (Some 3)))) = Some (otherRoom 300 (Some 3))"
    by (simp add: onRoomClick_def s onNumberOfRoomsChange_def getSelectedRoom_def
        twoRoomState_def initialState_def sampleRoom_def)
       (simp add: otherRoom_def)
  then show "selectedAvailableCount (onRoomClick (otherRoom 300 (Some 3))
      (onNumberOfRoomsChange 10 (twoRoomState (Some 15) (Some 3)))) = 3"
    by (simp add: selectedAvailableCount_def orZero_def otherRoom_def)
qed

lemma pick_frame:
  "getSelectedRoom (onNumberOfRoomsChange n st) = getSelectedRoom st"
  "selectedAvailableCount (onNumberOfRoomsChange n st) = selectedAvailableCount st"
  by (simp_all add: getSelectedRoom_def selectedAvailableCount_def onNumberOfRoomsChange_def)

section \<open>Number of nights: properties\<close>

text \<open>
  C1. For every pair of parseable arrival and departure dates (the platform parses no
  empty string), \<open>calculateNights\<close> stores the difference in days rounded up to the next
  whole day and clamped to 0: a departure not after the arrival gives 0 nights, a
  departure more than zero and at most one day after the arrival gives 1 night, and the
  stored value is an integer that is never negative.
\<close>

theorem calculateNights_rounds_up:
  assumes "getTime [] = None" "getTime arrival = Some a" "getTime departure = Some d"
  shows "numberOfNights (calculateNights getTime arrival departure st) =
           max 0 \<lceil>real_of_int (d - a) / (1000 * 3600 * 24)\<rceil>
       \<and> (d \<le> a \<longrightarrow> numberOfNights (calculateNights getTime arrival departure st) = 0)
       \<and> (a < d \<and> d - a \<le> 1000 * 3600 * 24 \<longrightarrow>
            numberOfNights (calculateNights getTime arrival departure st) = 1)
       \<and> 0 \<le> numberOfNights (calculateNights getTime arrival departure st)"
proof -
  from assms have ne: "arrival \<noteq> []" "departure \<noteq> []" by auto
  from calculateNights_cases(1) [OF ne assms(2,3), of st]
    ceil_nonpos [of "d - a"] ceil_one [of "d - a"]
  show ?thesis by simp
qed

theorem calculateNights_rounds_up_witness:
  "isoDateGetTime [] = None
   \<and> isoDateGetTime ''2024-01-15'' = Some 1705276800000
   \<and> isoDateGetTime ''2024-01-16'' = Some 1705363200000
   \<and> numberOfNights (calculateNights isoDateGetTime ''2024-01-15'' ''2024-01-16'' initialState) = 1
   \<and> numberOfNights (calculateNights isoDateGetTime ''2024-01-16'' ''2024-01-15'' initialState) = 0"
  using calculateNights_rounds_up [OF iso_empty iso_0115 iso_0116, of initialState]
    calculateNights_rounds_up [OF iso_empty iso_0116 iso_0115, of initialState]
    iso_empty iso_0115 iso_0116
  by simp

text \<open>
  C5, as the specification has it: every change of a date input, also to an empty
  value, replaces the stored nights by the recomputed result, 0 for an invalid range.
  The guard of \<open>calculateNights\<close> decides otherwise. Clearing the arrival date of the
  start state leaves the 5 nights of the former range in place.
\<close>

theorem nights_kept_counterexample:
  "numberOfNights (onArrivalDateChange isoDateGetTime [] initialState) = 5
   \<and> arrivalDate (onArrivalDateChange isoDateGetTime [] initialState) = []"
  by (simp add: onArrivalDateChange_def calculateNights_def initialState_def)

text \<open>
  C5, amended. For every change of the arrival or of the departure date input that
  leaves both date strings non-empty, the stored nights are replaced by the recomputed
  value: the rounded-up day difference clamped to 0 when both dates parse, which is 0
  for an inverted range, and 0 when either does not parse. A change that leaves either
  date string empty keeps the stored nights as they were. No handler raises.
\<close>

theorem date_change_recomputes:
  "(v \<noteq> [] \<and> departureDate st \<noteq> [] \<and> getTime v = Some a
      \<and> getTime (departureDate st) = Some d \<longrightarrow>
      numberOfNights (onArrivalDateChange getTime v st) =
        max 0 \<lceil>real_of_int (d - a) / (1000 * 3600 * 24)\<rceil>
      \<and> (d \<le> a \<longrightarrow> numberOfNights (onArrivalDateChange getTime v st) = 0))
   \<and> (v \<noteq> [] \<and> departureDate st \<noteq> []
      \<and> (getTime v = None \<or> getTime (departureDate st) = None) \<longrightarrow>
      numberOfNights (onArrivalDateChange getTime v st) = 0)
   \<and> (v = [] \<or> departureDate st = [] \<longrightarrow>
      numberOfNights (onArrivalDateChange getTime v st) = numberOfNights st)
   \<and> (arrivalDate st \<noteq> [] \<and> v \<noteq> [] \<and> getTime (arrivalDate st) = Some a
      \<and> getTime v = Some d \<longrightarrow>
      numberOfNights (onDepartureDateChange getTime v st) =
        max 0 \<lceil>real_of_int (d - a) / (1000 * 3600 * 24)\<rceil>
      \<and> (d \<le> a \<longrightarrow> numberOfNights (onDepartureDateChange getTime v st) = 0))
   \<and> (arrivalDate st \<noteq> [] \<and> v \<noteq> []
      \<and> (getTime (arrivalDate st) = None \<or> getTime v = None) \<longrightarrow>
      numberOfNights (onDepartureDateChange getTime v st) = 0)
   \<and> (arrivalDate st = [] \<or> v = [] \<longrightarrow>
      numberOfNights (onDepartureDateChange getTime v st) = numberOfNights st)"
proof -
  have A1: "v \<noteq> [] \<and> departureDate st \<noteq> [] \<and> getTime v = Some a
      \<and> getTime (departureDate st) = Some d \<longrightarrow>
      numberOfNights (onArrivalDateChange getTime v st) =
        max 0 \<lceil>real_of_int (d - a) / (1000 * 3600 * 24)\<rceil>
      \<and> (d \<le> a \<longrightarrow> numberOfNights (onArrivalDateChange getTime v st) = 0)"
    using ceil_nonpos [of "d - a"]
    by (simp add: onArrivalDateChange_def calculateNights_cases(1))
  have A2: "v \<noteq> [] \<and> departureDate st \<noteq> []
      \<and> (getTime v = None \<or> getTime (departureDate st) = None) \<longrightarrow>
      numberOfNights (onArrivalDateChange getTime v st) = 0"
    by (simp add: onArrivalDateChange_def calculateNights_cases(2))
  have A3: "v = [] \<or> departureDate st = [] \<longrightarrow>
      numberOfNights (onArrivalDateChange getTime v st) = numberOfNights st"
    by (simp add: onArrivalDateChange_def calculateNights_cases(3))
  have D1: "arrivalDate st \<noteq> [] \<and> v \<noteq> [] \<and> getTime (arrivalDate st) = Some a
      \<and> getTime v = Some d \<longrightarrow>
      numberOfNights (onDepartureDateChange getTime v st) =
        max 0 \<lceil>real_of_int (d - a) / (1000 * 3600 * 24)\<rceil>
      \<and> (d \<le> a \<longrightarrow> numberOfNights (onDepartureDateChange getTime v st) = 0)"
    using ceil_nonpos [of "d - a"]
    by (simp add: onDepartureDateChange_def calculateNights_cases(1))
  have D2: "arrivalDate st \<noteq> [] \<and> v \<noteq> []
      \<and> (getTime (arrivalDate st) = None \<or> getTime v = None) \<longrightarrow>
      numberOfNights (onDepartureDateChange getTime v st) = 0"
    by (simp add: onDepartureDateChange_def calculateNights_cases(2))
  have D3: "arrivalDate st = [] \<or> v = [] \<longrightarrow>
      numberOfNights (onDepartureDateChange getTime v st) = numberOfNights st"
    by (simp add: onDepartureDateChange_def calculateNights_cases(3))
  from A1 A2 A3 D1 D2 D3 show ?thesis by blast
qed

theorem date_change_recomputes_witness:
  "numberOfNights (onArrivalDateChange isoDateGetTime ''2024-01-18'' initialState) = 2
   \<and> numberOfNights (onArrivalDateChange isoDateGetTime ''2024-01-25'' initialState) = 0
   \<and> numberOfNights (onArrivalDateChange isoDateGetTime ''soon'' initialState) = 0
   \<and> numberOfNights (onArrivalDateChange isoDateGetTime [] initialState) = 5
   \<and> numberOfNights (onDepartureDateChange isoDateGetTime ''2024-01-16'' initialState) = 1
   \<and> numberOfNights (onDepartureDateChange isoDateGetTime ''soon'' initialState) = 0
   \<and> numberOfNights (onDepartureDateChange isoDateGetTime [] initialState) = 5"
proof -
  note t = date_change_recomputes [where getTime = isoDateGetTime and st = initialState]
  have "numberOfNights (onArrivalDateChange isoDateGetTime ''2024-01-18'' initialState) = 2"
    using t [of "''2024-01-18''" 1705536000000 1705708800000]
    by (simp add: initial_dates iso_0118 iso_0120)
  moreover
  have "numberOfNights (onArrivalDateChange isoDateGetTime ''2024-01-25'' initialState) = 0"
    using t [of "''2024-01-25''" 1706140800000 1705708800000]
    by (simp add: initial_dates iso_0125 iso_0120)
  moreover
  have "numberOfNights (onArrivalDateChange isoDateGetTime ''soon'' initialState) = 0"
    using t [of "''soon''" 0 0] by (simp add: initial_dates iso_soon)
  moreover
  have "numberOfNights (onArrivalDateChange isoDateGetTime [] initialState) = 5"
    using t [of "[]" 0 0] by (simp add: initial_dates)
  moreover
  have "numberOfNights (onDepartureDateChange isoDateGetTime ''2024-01-16'' initialState) = 1"
    using t [of "''2024-01-16''" 1705276800000 1705363200000]
    by (simp add: initial_dates iso_0115 iso_0116)
  moreover
  have "numberOfNights (onDepartureDateChange isoDateGetTime ''soon'' initialState) = 0"
    using t [of "''soon''" 0 0] by (simp add: initial_dates iso_soon)
  moreover
  have "numberOfNights (onDepartureDateChange isoDateGetTime [] initialState) = 5"
    using t [of "[]" 0 0] by (simp add: initial_dates)
  ultimately show ?thesis by blast
qed

section \<open>Payment split: properties\<close>

text \<open>
  C2. For every total amount and every value typed as paid today, the handler stores
  \<open>remainingBalance = max(0, total - paidToday)\<close>, where the paid amount is the parsed
  input (0 when it does not parse): the stored balance is never negative, and it is
  exactly 0 whenever the paid amount is at least the total.
\<close>

theorem remainingBalance_floored:
  "remainingBalance (paymentData (onAmountPaidTodayChange parsed st)) =
     Some (max 0 (pay_amount (paymentData st) - orZero parsed))
   \<and> amountPaidToday (paymentData (onAmountPaidTodayChange parsed st)) = Some (orZero parsed)
   \<and> 0 \<le> max 0 (pay_amount (paymentData st) - orZero parsed)
   \<and> (pay_amount (paymentData st) \<le> orZero parsed \<longrightarrow>
        remainingBalance (paymentData (onAmountPaidTodayChange parsed st)) = Some 0)"
  by (simp add: onAmountPaidTodayChange_def setPaymentData_def Let_def max_def)

theorem remainingBalance_floored_witness:
  "pay_amount (paymentData initialState) \<le> orZero (Some 1500)
   \<and> remainingBalance (paymentData (onAmountPaidTodayChange (Some 1500) initialState)) = Some 0"
  using remainingBalance_floored [where parsed = "Some 1500" and st = initialState]
  by (simp add: initialState_def initialPayment_def orZero_def)

section \<open>Total price: properties\<close>

text \<open>
  C8. The total \<open>rate * nights * roomCount\<close> is linear in each argument: doubling any one
  of the three while the other two stay fixed doubles the total.
\<close>

theorem computeTotal_linear:
  "computeTotal (2 * rate) nights roomCount = 2 * computeTotal rate nights roomCount
   \<and> computeTotal rate (2 * nights) roomCount = 2 * computeTotal rate nights roomCount
   \<and> computeTotal rate nights (2 * roomCount) = 2 * computeTotal rate nights roomCount"
  by (simp add: computeTotal_def)

section \<open>Number of rooms: properties\<close>

text \<open>
  C10. For every selected room with availability count \<open>a\<close>, the counts the selector
  offers are exactly the integers from 1 to \<open>min(10, a)\<close>: never more than 10, and none
  at all when \<open>a = 0\<close>.
\<close>

theorem numberOfRoomsOptions_range:
  assumes "selectedRoomId st \<noteq> []" "getSelectedRoom st = Some room"
    "room_availableCount room = Some a"
  shows "set (numberOfRoomsOptions st) = {1..min 10 a}
       \<and> (\<forall>n \<in> set (numberOfRoomsOptions st). n \<le> 10)
       \<and> (a = 0 \<longrightarrow> numberOfRoomsOptions st = [])"
proof -
  have s: "set (numberOfRoomsOptions st) = {1..min 10 a}"
    by (rule options_selected [OF assms])
  then have "\<forall>n \<in> set (numberOfRoomsOptions st). n \<le> 10" by simp
  moreover have "a = 0 \<longrightarrow> numberOfRoomsOptions st = []"
    using s by (simp del: set_empty add: set_empty [symmetric])
  ultimately show ?thesis using s by blast
qed

theorem numberOfRoomsOptions_range_witness:
  "selectedRoomId (loadedState 250 (Some 15)) \<noteq> []
   \<and> getSelectedRoom (loadedState 250 (Some 15)) = Some (sampleRoom 250 (Some 15))
   \<and> room_availableCount (sampleRoom 250 (Some 15)) = Some 15
   \<and> set (numberOfRoomsOptions (loadedState 250 (Some 15))) = {1..10}
   \<and> numberOfRoomsOptions (loadedState 250 (Some 0)) = []"
proof -
  have h1: "selectedRoomId (loadedState 250 (Some 15)) \<noteq> []"
    by (rule loaded_selectedRoomId)
  have h2: "getSelectedRoom (loadedState 250 (Some 15)) = Some (sampleRoom 250 (Some 15))"
    by (rule loaded_selected)
  have h3: "room_availableCount (sampleRoom 250 (Some 15)) = Some 15"
    by (rule sample_count)
  have k1: "selectedRoomId (loadedState 250 (Some 0)) \<noteq> []"
    by (rule loaded_selectedRoomId)
  have k2: "getSelectedRoom (loadedState 250 (Some 0)) = Some (sampleRoom 250 (Some 0))"
    by (rule loaded_selected)
  have k3: "room_availableCount (sampleRoom 250 (Some 0)) = Some 0"
    by (rule sample_count)
  from numberOfRoomsOptions_range [OF h1 h2 h3]
  have "set (numberOfRoomsOptions (loadedState 250 (Some 15))) = {1..10}" by simp
  moreover from numberOfRoomsOptions_range [OF k1 k2 k3]
  have "numberOfRoomsOptions (loadedState 250 (Some 0)) = []" by simp
  ultimately show ?thesis using h1 h2 h3 by blast
qed

text \<open>
  C3, as the specification has it: for every requested count and every availability
  count the user holds \<open>min(requested, availableCount)\<close> floored at 1, never more than the
  availability and never less than 1, so that 10 requested with 3 available gives 3.
  The page differs three times. With 15 rooms available the count 12 the sentence
  promises cannot be picked, the selector stopping at 10. With 0 rooms available the
  count held from the start is 1, above the availability. And after 10 rooms are
  picked for a room with 15 available, a click on a room with 3 available leaves 10
  rooms held, not 3.
\<close>

theorem clampRoomCount_counterexample:
  "clampRoomCount_spec 12 15 \<notin> set (numberOfRoomsOptions (loadedState 250 (Some 15)))
   \<and> \<not> numberOfRooms (loadedState 250 (Some 0))
         \<le> selectedAvailableCount (loadedState 250 (Some 0))
   \<and> 10 \<in> set (numberOfRoomsOptions (twoRoomState (Some 15) (Some 3)))
   \<and> selectedAvailableCount (onRoomClick (otherRoom 300 (Some 3))
        (onNumberOfRoomsChange 10 (twoRoomState (Some 15) (Some 3)))) = 3
   \<and> numberOfRooms (onRoomClick (otherRoom 300 (Some 3))
        (onNumberOfRoomsChange 10 (twoRoomState (Some 15) (Some 3)))) = 10
   \<and> numberOfRooms (onRoomClick (otherRoom 300 (Some 3))
        (onNumberOfRoomsChange 10 (twoRoomState (Some 15) (Some 3))))
       \<noteq> clampRoomCount_spec 10 3"
proof -
  have "set (numberOfRoomsOptions (loadedState 250 (Some 15))) = {1..min 10 15}"
    by (rule options_selected [OF loaded_selectedRoomId loaded_selected sample_count])
  moreover have "selectedAvailableCount (loadedState 250 (Some 0)) = 0"
    by (simp add: selectedAvailableCount_def loaded_selected sample_count orZero_def)
  moreover have "numberOfRooms (loadedState 250 (Some 0)) = 1"
    by (simp add: loadedState_def initialState_def)
  moreover have "set (numberOfRoomsOptions (twoRoomState (Some 15) (Some 3))) = {1..min 10 15}"
    by (rule options_selected [OF two_selected sample_count])
  ultimately show ?thesis by (simp add: clampRoomCount_spec_def switched_room)
qed

text \<open>
  C3, amended. For every availability count \<open>a\<close> of the selected room, the counts that
  can be requested are those the selector offers, exactly the integers from 1 to
  \<open>min(10, a)\<close>: none above 10, and none at all when \<open>a\<close> is 0 or less. For every such
  request the count the user holds after the pick is the requested count itself, which
  is \<open>min(requested, a)\<close> floored at 1: at the pick it is never greater than the
  availability of the selected room, never greater than 10 and never less than 1. The
  count held is not clamped again: a click on a room card leaves it as it was.
\<close>

theorem picked_count_within_availability:
  assumes "selectedRoomId st \<noteq> []" "getSelectedRoom st = Some room"
    "room_availableCount room = Some a"
  shows "set (numberOfRoomsOptions st) = {1..min 10 a}
       \<and> (\<forall>requested \<in> set (numberOfRoomsOptions st).
            numberOfRooms (onNumberOfRoomsChange requested st) = requested
            \<and> numberOfRooms (onNumberOfRoomsChange requested st)
                = clampRoomCount_spec requested a
            \<and> selectedAvailableCount (onNumberOfRoomsChange requested st) = a
            \<and> 1 \<le> numberOfRooms (onNumberOfRoomsChange requested st)
            \<and> numberOfRooms (onNumberOfRoomsChange requested st) \<le> a
            \<and> numberOfRooms (onNumberOfRoomsChange requested st) \<le> 10)
       \<and> (a \<le> 0 \<longrightarrow> numberOfRoomsOptions st = [])
       \<and> numberOfRooms (onRoomClick room' st) = numberOfRooms st"
proof -
  have s: "set (numberOfRoomsOptions st) = {1..min 10 a}"
    by (rule options_selected [OF assms])
  have c: "selectedAvailableCount st = a"
    using assms(2,3) by (simp add: selectedAvailableCount_def orZero_def)
  have p: "\<forall>requested \<in> set (numberOfRoomsOptions st).
            numberOfRooms (onNumberOfRoomsChange requested st) = requested
            \<and> numberOfRooms (onNumberOfRoomsChange requested st)
                = clampRoomCount_spec requested a
            \<and> selectedAvailableCount (onNumberOfRoomsChange requested st) = a
            \<and> 1 \<le> numberOfRooms (onNumberOfRoomsChange requested st)
            \<and> numberOfRooms (onNumberOfRoomsChange requested st) \<le> a
            \<and> numberOfRooms (onNumberOfRoomsChange requested st) \<le> 10"
    unfolding s pick_frame c
    by (auto simp add: onNumberOfRoomsChange_def clampRoomCount_spec_def)
  have e: "a \<le> 0 \<longrightarrow> numberOfRoomsOptions st = []"
    using s by (simp del: set_empty add: set_empty [symmetric])
  have f: "numberOfRooms (onRoomClick room' st) = numberOfRooms st"
    by (simp add: onRoomClick_def)
  from s p e f show ?thesis by blast
qed

theorem picked_count_within_availability_witness:
  "selectedRoomId (loadedState 250 (Some 3)) \<noteq> []
   \<and> getSelectedRoom (loadedState 250 (Some 3)) = Some (sampleRoom 250 (Some 3))
   \<and> room_availableCount (sampleRoom 250 (Some 3)) = Some 3
   \<and> set (numberOfRoomsOptions (loadedState 250 (Some 3))) = {1..3}
   \<and> 10 \<notin> set (numberOfRoomsOptions (loadedState 250 (Some 3)))
   \<and> numberOfRooms (onNumberOfRoomsChange 3 (loadedState 250 (Some 3))) = 3
   \<and> clampRoomCount_spec 3 3 = 3
   \<and> numberOfRoomsOptions (loadedState 250 (Some 0)) = []"
proof -
  have h1: "selectedRoomId (loadedState 250 (Some 3)) \<noteq> []"
    by (rule loaded_selectedRoomId)
  have h2: "getSelectedRoom (loadedState 250 (Some 3)) = Some (sampleRoom 250 (Some 3))"
    by (rule loaded_selected)
  have h3: "room_availableCount (sampleRoom 250 (Some 3)) = Some 3"
    by (rule sample_count)
  have k1: "selectedRoomId (loadedState 250 (Some 0)) \<noteq> []"
    by (rule loaded_selectedRoomId)
  have k2: "getSelectedRoom (loadedState 250 (Some 0)) = Some (sampleRoom 250 (Some 0))"
    by (rule loaded_selected)
  have k3: "room_availableCount (sampleRoom 250 (Some 0)) = Some 0"
    by (rule sample_count)
  note T = picked_count_within_availability [OF h1 h2 h3]
  from T have s: "set (numberOfRoomsOptions (loadedState 250 (Some 3))) = {1..3}" by simp
  then have m: "3 \<in> set (numberOfRoomsOptions (loadedState 250 (Some 3)))"
    and n: "10 \<notin> set (numberOfRoomsOptions (loadedState 250 (Some 3)))" by simp_all
  from T m have p: "numberOfRooms (onNumberOfRoomsChange 3 (loadedState 250 (Some 3))) = 3"
    and q: "numberOfRooms (onNumberOfRoomsChange 3 (loadedState 250 (Some 3)))
              = clampRoomCount_spec 3 3" by blast+
  from picked_count_within_availability [OF k1 k2 k3]
  have z: "numberOfRoomsOptions (loadedState 250 (Some 0)) = []" by simp
  from p q have "clampRoomCount_spec 3 3 = 3" by simp
  with h1 h2 h3 s n p z show ?thesis by blast
qed

section \<open>Confirmation: properties\<close>

text \<open>
  C4, as the specification has it: the assembled booking has a freshly generated
  identifier, and its guest, room and payment equal the current inputs field by field.
  The guest does not: after the arrival date input is moved to 16 January, the
  booking's guest carries that date while the guest data still hold 15 January. Nor
  is the identifier always new: two confirmations at one clock reading leave two
  bookings of the same identifier in the list.
\<close>

theorem booking_guest_counterexample:
  "bk_guest (last (bookings (handleConfirmBooking sampleClock
      (onArrivalDateChange isoDateGetTime ''2024-01-16'' (loadedState 250 (Some 3))))))
   \<noteq> guestData (onArrivalDateChange isoDateGetTime ''2024-01-16'' (loadedState 250 (Some 3)))
   \<and> map bk_id (bookings (handleConfirmBooking sampleClock
        (handleConfirmBooking sampleClock (loadedState 250 (Some 3)))))
       = [''1705312800000'', ''1705312800000'']"
proof -
  let ?S = "onArrivalDateChange isoDateGetTime ''2024-01-16'' (loadedState 250 (Some 3))"
  have sel: "getSelectedRoom ?S = Some (sampleRoom 250 (Some 3))"
    using loaded_selected [of 250 "Some 3"]
    by (simp add: getSelectedRoom_def onArrivalDateChange_def calculateNights_frame)
  have g: "guestData ?S = initialGuest"
    by (simp add: onArrivalDateChange_def calculateNights_frame loadedState_def
        initialState_def)
  have a: "arrivalDate ?S = ''2024-01-16''"
    by (simp add: onArrivalDateChange_def calculateNights_frame)
  have "guest_arrival (bk_guest (last (bookings (handleConfirmBooking sampleClock ?S))))
          = ''2024-01-16''"
    by (simp add: handleConfirmBooking_def sel newBooking_def a)
  moreover have "guest_arrival (guestData ?S) = ''2024-01-15''"
    by (simp add: g initialGuest_def)
  ultimately have one: "bk_guest (last (bookings (handleConfirmBooking sampleClock ?S)))
      \<noteq> guestData ?S" by auto
  let ?L = "loadedState 250 (Some 3)"
  have t: "toString (now_id sampleClock) = ''1705312800000''"
    by (simp add: sampleClock_def toString_def digits.simps)
  have l: "getSelectedRoom ?L = Some (sampleRoom 250 (Some 3))" by (rule loaded_selected)
  have l1: "getSelectedRoom (handleConfirmBooking sampleClock ?L) = Some (sampleRoom 250 (Some 3))"
    using l by (simp add: handleConfirmBooking_def getSelectedRoom_def)
  have e: "bookings ?L = []" by (simp add: loadedState_def initialState_def)
  have "map bk_id (bookings (handleConfirmBooking sampleClock
        (handleConfirmBooking sampleClock ?L))) = [toString (now_id sampleClock), toString (now_id sampleClock)]"
    by (simp add: handleConfirmBooking_def [of sampleClock "handleConfirmBooking sampleClock ?L"] l1)
       (simp add: handleConfirmBooking_def l e newBooking_def)
  with one t show ?thesis by simp
qed

text \<open>
  C4, amended. For every form state whose selected room is found, the booking
  appended on confirmation has an identifier generated at that moment from the clock,
  the decimal rendering of the reading: it differs from the identifier of every
  booking assembled at another clock reading, and so it is new to the list whenever
  the bookings of the list were assembled at other readings. The booking has the
  current timestamp; its room and payment are the selected room and the payment input
  unchanged; and its guest is the guest data with three fields replaced, arrival and
  departure by the two date inputs and the room rate by the rate of the selected room,
  every other guest field unchanged.
\<close>

theorem handleConfirmBooking_assembles:
  assumes "getSelectedRoom st = Some room"
  shows "bookings (handleConfirmBooking clk st) = bookings st @ [newBooking clk st room]
       \<and> bk_id (newBooking clk st room) = toString (now_id clk)
       \<and> (now_id clk' \<noteq> now_id clk \<longrightarrow>
            bk_id (newBooking clk' st' room') \<noteq> bk_id (newBooking clk st room))
       \<and> ((\<forall>b \<in> set (bookings st). \<exists>c s r. b = newBooking c s r \<and> now_id c \<noteq> now_id clk) \<longrightarrow>
            bk_id (newBooking clk st room) \<notin> bk_id ` set (bookings st))
       \<and> bk_createdAt (newBooking clk st room) = now_createdAt clk
       \<and> bk_room (newBooking clk st room) = room
       \<and> bk_payment (newBooking clk st room) = paymentData st
       \<and> guest_arrival (bk_guest (newBooking clk st room)) = arrivalDate st
       \<and> guest_departure (bk_guest (newBooking clk st room)) = departureDate st
       \<and> guest_roomRate (bk_guest (newBooking clk st room)) = room_rate room
       \<and> (bk_guest (newBooking clk st room))
            \<lparr>guest_arrival := guest_arrival (guestData st),
             guest_departure := guest_departure (guestData st),
             guest_roomRate := guest_roomRate (guestData st)\<rparr> = guestData st"
proof -
  have d: "\<And>c s r. now_id c \<noteq> now_id clk \<Longrightarrow>
          bk_id (newBooking c s r) \<noteq> bk_id (newBooking clk st room)"
    using toString_inj by (auto simp add: newBooking_def)
  have l: "(\<forall>b \<in> set (bookings st). \<exists>c s r. b = newBooking c s r \<and> now_id c \<noteq> now_id clk) \<longrightarrow>
            bk_id (newBooking clk st room) \<notin> bk_id ` set (bookings st)"
  proof
    assume a: "\<forall>b \<in> set (bookings st). \<exists>c s r. b = newBooking c s r \<and> now_id c \<noteq> now_id clk"
    show "bk_id (newBooking clk st room) \<notin> bk_id ` set (bookings st)"
    proof
      assume "bk_id (newBooking clk st room) \<in> bk_id ` set (bookings st)"
      then obtain b where b: "b \<in> set (bookings st)" "bk_id b = bk_id (newBooking clk st room)"
        by auto
      with a obtain c s r where "b = newBooking c s r" "now_id c \<noteq> now_id clk" by blast
      with d [of c s r] b(2) show False by simp
    qed
  qed
  have r: "bookings (handleConfirmBooking clk st) = bookings st @ [newBooking clk st room]
       \<and> bk_id (newBooking clk st room) = toString (now_id clk)
       \<and> bk_createdAt (newBooking clk st room) = now_createdAt clk
       \<and> bk_room (newBooking clk st room) = room
       \<and> bk_payment (newBooking clk st room) = paymentData st
       \<and> guest_arrival (bk_guest (newBooking clk st room)) = arrivalDate st
       \<and> guest_departure (bk_guest (newBooking clk st room)) = departureDate st
       \<and> guest_roomRate (bk_guest (newBooking clk st room)) = room_rate room
       \<and> (bk_guest (newBooking clk st room))
            \<lparr>guest_arrival := guest_arrival (guestData st),
             guest_departure := guest_departure (guestData st),
             guest_roomRate := guest_roomRate (guestData st)\<rparr> = guestData st"
    using assms by (simp add: handleConfirmBooking_def newBooking_def)
  from d [of clk' st' room'] l r show ?thesis by blast
qed

theorem handleConfirmBooking_assembles_witness:
  "getSelectedRoom (loadedState 250 (Some 3)) = Some (sampleRoom 250 (Some 3))
   \<and> bk_id (last (bookings (handleConfirmBooking sampleClock (loadedState 250 (Some 3)))))
       = ''1705312800000''
   \<and> bk_guest (last (bookings (handleConfirmBooking sampleClock (loadedState 250 (Some 3)))))
       = initialGuest
   \<and> now_id sampleClock \<noteq> now_id (sampleClock\<lparr>now_id := 1705312800001\<rparr>)
   \<and> bookings (handleConfirmBooking sampleClock (loadedState 250 (Some 3)))
       = [newBooking sampleClock (loadedState 250 (Some 3)) (sampleRoom 250 (Some 3))]
   \<and> bk_id (newBooking (sampleClock\<lparr>now_id := 1705312800001\<rparr>)
          (handleConfirmBooking sampleClock (loadedState 250 (Some 3)))
          (sampleRoom 250 (Some 3)))
       \<notin> bk_id ` set (bookings (handleConfirmBooking sampleClock (loadedState 250 (Some 3))))"
proof -
  let ?L = "loadedState 250 (Some 3)"
  let ?R = "sampleRoom 250 (Some 3)"
  let ?S = "handleConfirmBooking sampleClock ?L"
  let ?C = "sampleClock\<lparr>now_id := 1705312800001\<rparr>"
  have h: "getSelectedRoom ?L = Some ?R"
    by (rule loaded_selected)
  have t: "toString (now_id sampleClock) = ''1705312800000''"
    by (simp add: sampleClock_def toString_def digits.simps)
  have g: "guestData ?L = initialGuest"
      "arrivalDate ?L = ''2024-01-15''"
      "departureDate ?L = ''2024-01-20''"
      "room_rate ?R = 250"
    by (simp_all add: loadedState_def initialState_def sampleRoom_def)
  have b: "bk_guest (newBooking sampleClock ?L ?R) = initialGuest"
    by (simp add: newBooking_def g) (simp add: initialGuest_def)
  have n: "now_id sampleClock \<noteq> now_id ?C"
    by (simp add: sampleClock_def)
  have e: "bookings ?L = []"
    by (simp add: loadedState_def initialState_def)
  note T = handleConfirmBooking_assembles [OF h, where clk = sampleClock]
  from T e have l: "bookings ?S = [newBooking sampleClock ?L ?R]"
    by simp
  then have la: "last (bookings ?S) = newBooking sampleClock ?L ?R"
    by simp
  from T t have i: "bk_id (newBooking sampleClock ?L ?R) = ''1705312800000''"
    by simp
  have h': "getSelectedRoom ?S = Some ?R"
    using h by (simp add: handleConfirmBooking_def getSelectedRoom_def)
  have p: "\<forall>b \<in> set (bookings ?S). \<exists>c s r. b = newBooking c s r \<and> now_id c \<noteq> now_id ?C"
    unfolding l using n by auto
  from handleConfirmBooking_assembles [OF h', where clk = ?C] p
  have f: "bk_id (newBooking ?C ?S ?R) \<notin> bk_id ` set (bookings ?S)"
    by blast
  from h la i b n l f show ?thesis by simp
qed

text \<open>
  C6. For every prior bookings list and every confirmation, the list after
  \<open>handleConfirmBooking\<close> is the prior list with at most one booking appended at its end:
  every earlier booking is still there, unchanged and in place. The other handlers of
  the form write other state variables and leave the list as it is (the buttons of the
  operations table only log and alert).
\<close>

theorem handleConfirmBooking_appends:
  "(bookings (handleConfirmBooking clk st) = bookings st
      \<or> (\<exists>b. bookings (handleConfirmBooking clk st) = bookings st @ [b]))
   \<and> take (length (bookings st)) (bookings (handleConfirmBooking clk st)) = bookings st
   \<and> length (bookings (handleConfirmBooking clk st)) \<le> length (bookings st) + 1
   \<and> bookings (onArrivalDateChange getTime v st) = bookings st
   \<and> bookings (onDepartureDateChange getTime v st) = bookings st
   \<and> bookings (setSelectedHotelId v st) = bookings st
   \<and> bookings (onRoomClick room st) = bookings st
   \<and> bookings (onNumberOfRoomsChange num st) = bookings st
   \<and> bookings (setGuestData g st) = bookings st
   \<and> bookings (onAlternativePriceChange parsed st) = bookings st
   \<and> bookings (setPaymentData p st) = bookings st
   \<and> bookings (onAmountChange parsed st) = bookings st
   \<and> bookings (onAmountPaidTodayChange parsed st) = bookings st"
proof -
  have "bookings (handleConfirmBooking clk st) = bookings st
      \<or> (\<exists>b. bookings (handleConfirmBooking clk st) = bookings st @ [b])"
    by (simp add: handleConfirmBooking_def split: option.split)
  moreover
  have "take (length (bookings st)) (bookings (handleConfirmBooking clk st)) = bookings st"
    by (simp add: handleConfirmBooking_def split: option.split)
  moreover
  have "length (bookings (handleConfirmBooking clk st)) \<le> length (bookings st) + 1"
    by (simp add: handleConfirmBooking_def split: option.split)
  moreover have "bookings (onArrivalDateChange getTime v st) = bookings st"
    "bookings (onDepartureDateChange getTime v st) = bookings st"
    by (simp_all add: onArrivalDateChange_def onDepartureDateChange_def calculateNights_frame)
  moreover have "bookings (setSelectedHotelId v st) = bookings st"
    "bookings (onRoomClick room st) = bookings st"
    "bookings (onNumberOfRoomsChange num st) = bookings st"
    by (simp_all add: setSelectedHotelId_def onRoomClick_def onNumberOfRoomsChange_def)
  moreover have "bookings (setGuestData g st) = bookings st"
    "bookings (onAlternativePriceChange parsed st) = bookings st"
    by (simp_all add: setGuestData_def onAlternativePriceChange_def)
  moreover have "bookings (setPaymentData p st) = bookings st"
    "bookings (onAmountChange parsed st) = bookings st"
    "bookings (onAmountPaidTodayChange parsed st) = bookings st"
    by (simp_all add: setPaymentData_def onAmountChange_def onAmountPaidTodayChange_def Let_def)
  ultimately show ?thesis by blast
qed

text \<open>
  C9. If the selected room id matches no room of the loaded list,
  \<open>handleConfirmBooking\<close> changes nothing: no booking is created, the bookings list and
  the rest of the state are as before, and nothing is raised.
\<close>

theorem handleConfirmBooking_no_room:
  assumes "\<forall>room \<in> set (rooms st). room_id room \<noteq> selectedRoomId st"
  shows "handleConfirmBooking clk st = st"
proof -
  from assms have "getSelectedRoom st = None"
    unfolding getSelectedRoom_def by (intro find_None) simp
  then show ?thesis by (simp add: handleConfirmBooking_def)
qed

theorem handleConfirmBooking_no_room_witness:
  "rooms ((loadedState 250 (Some 3))\<lparr>selectedRoomId := ''room-9''\<rparr>) = [sampleRoom 250 (Some 3)]
   \<and> room_id (sampleRoom 250 (Some 3)) = ''room-1''
   \<and> selectedRoomId ((loadedState 250 (Some 3))\<lparr>selectedRoomId := ''room-9''\<rparr>) = ''room-9''
   \<and> handleConfirmBooking sampleClock ((loadedState 250 (Some 3))\<lparr>selectedRoomId := ''room-9''\<rparr>)
       = (loadedState 250 (Some 3))\<lparr>selectedRoomId := ''room-9''\<rparr>"
proof -
  let ?S = "(loadedState 250 (Some 3))\<lparr>selectedRoomId := ''room-9''\<rparr>"
  have r: "rooms ?S = [sampleRoom 250 (Some 3)]"
    by (simp add: loadedState_def initialState_def)
  have i: "room_id (sampleRoom 250 (Some 3)) = ''room-1''"
    by (simp add: sampleRoom_def)
  have s: "selectedRoomId ?S = ''room-9''" by simp
  have h: "\<forall>room \<in> set (rooms ?S). room_id room \<noteq> selectedRoomId ?S"
    unfolding r s by (simp add: i)
  from handleConfirmBooking_no_room [OF h, of sampleClock] r i s show ?thesis by blast
qed

section \<open>End to end\<close>

text \<open>
  C7. With arrival 2024-01-15 and departure 2024-01-20 typed into the date inputs the
  stored nights are 5; with a room of rate 250 selected and 2 rooms chosen the total is
  2500; and with that total entered as the amount and 500 as paid today the remaining
  balance is 2000.
\<close>

theorem end_to_end_scenario:
  "numberOfNights (onDepartureDateChange isoDateGetTime ''2024-01-20''
      (onArrivalDateChange isoDateGetTime ''2024-01-15''
        ((loadedState 250 (Some 3))\<lparr>numberOfNights := 0\<rparr>))) = 5
   \<and> totalPrice (onNumberOfRoomsChange 2 (loadedState 250 (Some 3))) = 2500
   \<and> remainingBalance (paymentData (onAmountPaidTodayChange (Some 500)
        (onAmountChange (Some (totalPrice (onNumberOfRoomsChange 2 (loadedState 250 (Some 3)))))
          (onNumberOfRoomsChange 2 (loadedState 250 (Some 3)))))) = Some 2000"
proof -
  have n: "numberOfNights (onDepartureDateChange isoDateGetTime ''2024-01-20''
      (onArrivalDateChange isoDateGetTime ''2024-01-15''
        ((loadedState 250 (Some 3))\<lparr>numberOfNights := 0\<rparr>))) = 5"
    by (simp add: onDepartureDateChange_def onArrivalDateChange_def calculateNights_def
        iso_0115 iso_0120 loadedState_def initialState_def)
  have s: "getSelectedRoom (onNumberOfRoomsChange 2 (loadedState 250 (Some 3)))
             = Some (sampleRoom 250 (Some 3))"
    using loaded_selected [of 250 "Some 3"]
    by (simp add: getSelectedRoom_def onNumberOfRoomsChange_def)
  have t: "totalPrice (onNumberOfRoomsChange 2 (loadedState 250 (Some 3))) = 2500"
  proof -
    have "numberOfNights (onNumberOfRoomsChange 2 (loadedState 250 (Some 3))) = 5"
      "numberOfRooms (onNumberOfRoomsChange 2 (loadedState 250 (Some 3))) = 2"
      "room_rate (sampleRoom 250 (Some 3)) = 250"
      by (simp_all add: onNumberOfRoomsChange_def loadedState_def initialState_def
          sampleRoom_def)
    then show ?thesis by (simp add: totalPrice_def s computeTotal_def)
  qed
  have r: "remainingBalance (paymentData (onAmountPaidTodayChange (Some 500)
        (onAmountChange (Some 2500) (onNumberOfRoomsChange 2 (loadedState 250 (Some 3))))))
      = Some 2000"
    by (simp add: onAmountPaidTodayChange_def onAmountChange_def setPaymentData_def
        orZero_def)
  from n t r show ?thesis by simp
qed

end
